theory Spec2Isabelle
  imports Complex_Main "HOL-Library.Sublist"
begin

section \<open>Python values, errors and string operations\<close>

text \<open>
  The module \<^verbatim>\<open>ate/tdr.py\<close> handles the rows of the csv file written by the ATE test
  software. A cell of such a row, once read by pandas, is a string, a number, a boolean or
  missing. A Python float is modelled by its numeric value (a rational; the code only
  compares floats with \<^verbatim>\<open>1.0\<close> and \<^verbatim>\<open>0.0\<close>, negates them and prints them); how Python
  prints a float is a parameter \<open>float_repr\<close> of the functions that format one.
\<close>

datatype error = KeyError | TypeError | IndexError

datatype pyval = PNone | PBool bool | PInt int | PFloat rat | PStr string

text \<open>\<^verbatim>\<open>sub in s\<close> on two Python strings: \<open>sub\<close> occurs in \<open>s\<close> as a contiguous run.\<close>

fun py_in :: "string \<Rightarrow> string \<Rightarrow> bool" where
  "py_in sub [] = (sub = [])"
| "py_in sub (c # cs) = (prefix sub (c # cs) \<or> py_in sub cs)"

text \<open>\<^verbatim>\<open>str(n)\<close> for a natural number: its decimal digits.\<close>

fun digits :: "nat \<Rightarrow> string" where
  "digits n = (if n < 10 then [''0123456789'' ! n]
               else digits (n div 10) @ [''0123456789'' ! (n mod 10)])"

declare digits.simps [simp del]

text \<open>\<^verbatim>\<open>str(v)\<close>, which is also what a \<^verbatim>\<open>{}\<close> field of \<^verbatim>\<open>str.format\<close> prints.\<close>

fun py_str :: "(rat \<Rightarrow> string) \<Rightarrow> pyval \<Rightarrow> string" where
  "py_str float_repr PNone = ''None''"
| "py_str float_repr (PBool b) = (if b then ''True'' else ''False'')"
| "py_str float_repr (PInt i) = (if i < 0 then CHR ''-'' # digits (nat (- i)) else digits (nat i))"
| "py_str float_repr (PFloat x) = float_repr x"
| "py_str float_repr (PStr s) = s"

text \<open>The numeric value of a Python number (\<^verbatim>\<open>True\<close> is 1, \<^verbatim>\<open>False\<close> is 0).\<close>

fun num_val :: "pyval \<Rightarrow> rat option" where
  "num_val (PBool b) = Some (if b then 1 else 0)"
| "num_val (PInt i) = Some (of_int i)"
| "num_val (PFloat x) = Some x"
| "num_val PNone = None"
| "num_val (PStr s) = None"

text \<open>\<^verbatim>\<open>a == b\<close>: numbers compare by value, a string equals only the same string.\<close>

definition py_eq :: "pyval \<Rightarrow> pyval \<Rightarrow> bool" where
  "py_eq a b = (case (num_val a, num_val b) of
                  (Some x, Some y) \<Rightarrow> x = y
                | (None, None) \<Rightarrow> a = b
                | _ \<Rightarrow> False)"

text \<open>
  \<^verbatim>\<open>template.format(*args)\<close> for a template whose only braces are \<^verbatim>\<open>{}\<close> fields: each
  field takes the next argument; a field with no argument left raises IndexError.
\<close>

fun py_format :: "string \<Rightarrow> string list \<Rightarrow> error + string" where
  "py_format [] args = Inr []"
| "py_format [c] args = Inr [c]"
| "py_format (c # d # cs) args =
     (if c = CHR ''{'' \<and> d = CHR ''}'' then
        (case args of
           [] \<Rightarrow> Inl IndexError
         | a # as \<Rightarrow> (case py_format cs as of Inl e \<Rightarrow> Inl e | Inr s \<Rightarrow> Inr (a @ s)))
      else (case py_format (d # cs) args of Inl e \<Rightarrow> Inl e | Inr s \<Rightarrow> Inr (c # s)))"

text \<open>
  \<^verbatim>\<open>re.split(r' \[', s)\<close>: the pieces of \<open>s\<close> between the occurrences of a space followed
  by an opening bracket, scanned from the left.
\<close>

fun re_split :: "string \<Rightarrow> string list" where
  "re_split [] = [[]]"
| "re_split [c] = [[c]]"
| "re_split (c # d # cs) =
     (if c = CHR '' '' \<and> d = CHR ''['' then [] # re_split cs
      else (case re_split (d # cs) of
              [] \<Rightarrow> [[c]]
            | s # ss \<Rightarrow> (c # s) # ss))"

section \<open>The rows of the csv file\<close>

text \<open>
  A row is a pandas Series: labelled values in column order. \<^verbatim>\<open>read_csv\<close> renames
  repeated column names, so a row read from the file has each label once.
\<close>

type_synonym series = "(string \<times> pyval) list"

definition well_formed_row :: "series \<Rightarrow> bool" where
  "well_formed_row row = distinct (map fst row)"

text \<open>\<^verbatim>\<open>data[key]\<close>: KeyError when the label is missing.\<close>

definition series_getitem :: "series \<Rightarrow> string \<Rightarrow> error + pyval" where
  "series_getitem row key = (case map_of row key of None \<Rightarrow> Inl KeyError | Some v \<Rightarrow> Inr v)"

text \<open>\<^verbatim>\<open>data.get(key)\<close>: \<^verbatim>\<open>None\<close> when the label is missing.\<close>

definition series_get :: "series \<Rightarrow> string \<Rightarrow> pyval" where
  "series_get row key = (case map_of row key of None \<Rightarrow> PNone | Some v \<Rightarrow> v)"

text \<open>\<^verbatim>\<open>data.drop(key)\<close>: the row without that label; KeyError when the label is missing.\<close>

definition series_drop :: "series \<Rightarrow> string \<Rightarrow> error + series" where
  "series_drop row key =
     (if key \<in> fst ` set row then Inr (filter (\<lambda>kv. fst kv \<noteq> key) row)
      else Inl KeyError)"

definition DATE_COLUMN_NAME :: string where
  "DATE_COLUMN_NAME = ''[TIME] TIMESTAMP / RECORD ID''"

definition SERIAL_COLUMN_NAME :: string where
  "SERIAL_COLUMN_NAME = ''[CONFIG] UUT SERIAL NUMBER''"

section \<open>TdrsCsv, TestDataRecord and Test\<close>

text \<open>
  Modelled from the spec: an entry of the test specification \<^verbatim>\<open>Pcf.Section\<close>, declared in
  \<^verbatim>\<open>ate/pcf.py\<close>, which is not among the sources. It has the attributes the
  properties of \<^verbatim>\<open>Test\<close> read, with the types their annotations give.
\<close>

record pcf_spec =
  data_type :: string
  spec_nominal :: rat
  spec_units :: string
  spec_low_limit :: rat
  spec_high_limit :: rat

text \<open>
  \<^verbatim>\<open>TdrsCsv\<close>: the path and the test specification. Modelled from the spec: the
  specification \<^verbatim>\<open>Pcf.Section\<close> is a lookup by test name that signals an unknown name;
  \<^verbatim>\<open>test_spec[name]\<close> is the map applied to the name, and \<open>None\<close> stands for the
  KeyError. (The data frame \<^verbatim>\<open>df\<close> is where the rows come from; a
  \<^verbatim>\<open>TestDataRecord\<close> is built here from a row directly.)
\<close>

record tdrs_csv =
  csv_path :: string
  test_spec :: "string \<rightharpoonup> pcf_spec"

text \<open>\<^verbatim>\<open>TestDataRecord\<close>; \<open>rec_status = None\<close> is the Python \<^verbatim>\<open>None\<close> assigned first.\<close>

record tdr =
  rec_csv :: tdrs_csv
  rec_data :: series
  rec_date :: pyval
  rec_serial :: pyval
  rec_status :: "bool option"

text \<open>
  \<^verbatim>\<open>set_status\<close>: a \<^verbatim>\<open>try\<close> with a \<^verbatim>\<open>finally\<close> clause and no \<^verbatim>\<open>except\<close>. The body
  runs, then the \<^verbatim>\<open>finally\<close> clause runs whatever the body did; an error of the clause
  propagates, otherwise an error of the body does.
\<close>

definition set_status :: "tdr \<Rightarrow> error + tdr" where
  "set_status self =
     (let body = (case series_getitem (rec_data self) ''[RESULT] TEST P/F STATUS'' of
                    Inl e \<Rightarrow> Inl e
                  | Inr v \<Rightarrow> Inr (self\<lparr>rec_status := Some (py_eq v (PStr ''PASS''))\<rparr>));
          self1 = (case body of Inl e \<Rightarrow> self | Inr s \<Rightarrow> s)
      in case series_drop (rec_data self1) ''[RESULT] TEST P/F STATUS'' of
           Inl e \<Rightarrow> Inl e
         | Inr d \<Rightarrow> (case body of Inl e \<Rightarrow> Inl e | Inr s \<Rightarrow> Inr (self1\<lparr>rec_data := d\<rparr>)))"

definition TestDataRecord_init :: "tdrs_csv \<Rightarrow> series \<Rightarrow> error + tdr" where
  "TestDataRecord_init csv data =
     set_status \<lparr>rec_csv = csv, rec_data = data,
                 rec_date = series_get data DATE_COLUMN_NAME,
                 rec_serial = series_get data SERIAL_COLUMN_NAME,
                 rec_status = None\<rparr>"

text \<open>
  \<^verbatim>\<open>Test\<close>: the attributes in the order \<^verbatim>\<open>__init__\<close> assigns them; \<open>spec\<close> comes last,
  looked up under the name the property \<open>name\<close> computes from the first one.
  \<open>operator = None\<close> is the Python \<^verbatim>\<open>None\<close>. The \<^verbatim>\<open>isinstance\<close> check of
  \<^verbatim>\<open>__init__\<close>, which raises TypeError unless \<^verbatim>\<open>outer\<close> is a \<^verbatim>\<open>TestDataRecord\<close>, is the
  type of the first argument of \<open>Test_init\<close>.
\<close>

record test_base =
  raw_name :: string
  test_data :: pyval
  operator :: "string option"
  test_record :: tdr

record test = test_base +
  spec :: pcf_spec

definition name :: "'a test_base_scheme \<Rightarrow> string" where
  "name self = (if py_in ''['' (raw_name self) then hd (re_split (raw_name self))
                else raw_name self)"

definition Test_init :: "tdr \<Rightarrow> string \<Rightarrow> pyval \<Rightarrow> error + test" where
  "Test_init outer nm data =
     (let self = \<lparr>raw_name = nm, test_data = data, operator = None, test_record = outer\<rparr>
      in case test_spec (rec_csv (test_record self)) (name self) of
           None \<Rightarrow> Inl KeyError
         | Some sp \<Rightarrow> Inr \<lparr>raw_name = nm, test_data = data, operator = None,
                          test_record = outer, spec = sp\<rparr>)"

text \<open>\<^verbatim>\<open>'PASS' in self.data\<close>: on a value that is not a string, \<^verbatim>\<open>in\<close> raises TypeError.\<close>

definition status :: "'a test_base_scheme \<Rightarrow> error + bool" where
  "status self = (case test_data self of
                    PStr s \<Rightarrow> Inr (if py_in ''PASS'' s then True else False)
                  | _ \<Rightarrow> Inl TypeError)"

definition type :: "test \<Rightarrow> string" where
  "type self = data_type (spec self)"

definition nominal :: "test \<Rightarrow> rat" where
  "nominal self = spec_nominal (spec self)"

definition units :: "test \<Rightarrow> string" where
  "units self = spec_units (spec self)"

definition low_limit :: "test \<Rightarrow> rat" where
  "low_limit self = spec_low_limit (spec self)"

definition high_limit :: "test \<Rightarrow> rat" where
  "high_limit self = spec_high_limit (spec self)"

text \<open>
  Modelled from the spec: \<^verbatim>\<open>Record.__getitem__\<close> of \<^verbatim>\<open>kemx.templates\<close>, the base class of
  \<^verbatim>\<open>TestDataRecord\<close>, which \<^verbatim>\<open>meas\<close> calls as \<^verbatim>\<open>self.record[...]\<close>. The spec reads a
  sibling field by its name from the record's tests, a test per remaining field of the row
  keyed by the field's name, and fails when there is no such field.
\<close>

definition Record_getitem :: "tdr \<Rightarrow> string \<Rightarrow> error + test" where
  "Record_getitem self key =
     (case map_of (rec_data self) key of
        None \<Rightarrow> Inl KeyError
      | Some v \<Rightarrow> Test_init self key v)"

text \<open>
  The property \<^verbatim>\<open>meas\<close> assigns \<^verbatim>\<open>self.operator\<close> while it computes the value, so it
  returns the outcome together with the test as it leaves it. A function that ends without
  \<^verbatim>\<open>return\<close> gives \<^verbatim>\<open>None\<close>. \<^verbatim>\<open>not x\<close> of a float is true exactly for zero, and
  \<^verbatim>\<open>int\<close> of a boolean is 1 or 0.
\<close>

definition meas :: "test \<Rightarrow> (error + pyval) \<times> test" where
  "meas self =
     (if type self = ''DBL'' then
        (let self1 = self\<lparr>operator := Some ''<>''\<rparr> in
         case Record_getitem (test_record self1) (name self1 @ '' [MEAS]'') of
           Inr sibling \<Rightarrow> (Inr (test_data sibling), self1)
         | Inl KeyError \<Rightarrow>
             (if nominal self1 = 1 \<or> nominal self1 = 0
              then (Inr (PInt (of_bool (nominal self1 = 0))), self1\<lparr>operator := Some ''==''\<rparr>)
              else (Inr PNone, self1))
         | Inl e \<Rightarrow> (Inl e, self1))
      else if type self = ''BOOLEAN'' then
        (let self1 = self\<lparr>operator := Some ''==''\<rparr> in
         case status self1 of
           Inl e \<Rightarrow> (Inl e, self1)
         | Inr b \<Rightarrow> (Inr (PInt (of_bool b)), self1))
      else if type self = ''STRING'' then (Inr PNone, self\<lparr>operator := Some ''==''\<rparr>)
      else if type self = ''CORRELATION DBL'' then (Inr PNone, self\<lparr>operator := Some ''<>''\<rparr>)
      else (Inr PNone, self))"

text \<open>
  \<^verbatim>\<open>__get_failed_tests\<close> filters \<^verbatim>\<open>self.tests\<close>, a property of the base class
  \<^verbatim>\<open>kemx.templates.Record\<close>: the list of tests is taken as given.
\<close>

definition get_failed_tests :: "(rat \<Rightarrow> string) \<Rightarrow> test list \<Rightarrow> test list" where
  "get_failed_tests float_repr tests =
     [test \<leftarrow> tests. py_in ''FAIL'' (py_str float_repr (test_data test))]"

text \<open>
  \<^verbatim>\<open>build_failstring\<close>: the loop over the failed tests, with the string built so far.
  The arguments of \<^verbatim>\<open>format\<close> are evaluated from left to right, so \<^verbatim>\<open>test.operator\<close> is
  read after \<^verbatim>\<open>test.meas\<close> has assigned it.
\<close>

fun build_failstring_loop :: "(rat \<Rightarrow> string) \<Rightarrow> string \<Rightarrow> test list \<Rightarrow> error + string" where
  "build_failstring_loop float_repr failstring [] = Inr failstring"
| "build_failstring_loop float_repr failstring (test # rest) =
     (case meas test of
        (Inl e, test1) \<Rightarrow> Inl e
      | (Inr m, test1) \<Rightarrow>
          (case py_format (''|ftestres=0,{},{},{},{},{},{},{}'' @ [CHR 0x0A])
                  [name test, py_str float_repr m, float_repr (high_limit test1),
                   float_repr (low_limit test1), float_repr (nominal test1), units test1,
                   (case operator test1 of None \<Rightarrow> ''None'' | Some s \<Rightarrow> s)] of
             Inl e \<Rightarrow> Inl e
           | Inr line \<Rightarrow> build_failstring_loop float_repr (failstring @ line) rest))"

definition build_failstring :: "(rat \<Rightarrow> string) \<Rightarrow> test list \<Rightarrow> error + string" where
  "build_failstring float_repr tests =
     build_failstring_loop float_repr '''' (get_failed_tests float_repr tests)"

section \<open>A sample record\<close>

text \<open>
  A specification, a row of the csv file and the record built from it, used to run the
  functions above on concrete data.
\<close>

definition ex_csv :: tdrs_csv where
  "ex_csv = \<lparr>csv_path = ''tdr.csv'',
     test_spec = [
       ''Voltage'' \<mapsto> \<lparr>data_type = ''DBL'', spec_nominal = 5, spec_units = ''V'',
                       spec_low_limit = 49 / 10, spec_high_limit = 51 / 10\<rparr>,
       ''Current'' \<mapsto> \<lparr>data_type = ''DBL'', spec_nominal = 3 / 2, spec_units = ''A'',
                       spec_low_limit = 1, spec_high_limit = 2\<rparr>,
       ''Relay'' \<mapsto> \<lparr>data_type = ''DBL'', spec_nominal = 1, spec_units = ''-'',
                     spec_low_limit = 1, spec_high_limit = 1\<rparr>,
       ''Fuse'' \<mapsto> \<lparr>data_type = ''DBL'', spec_nominal = 0, spec_units = ''-'',
                    spec_low_limit = 0, spec_high_limit = 0\<rparr>,
       ''Led'' \<mapsto> \<lparr>data_type = ''BOOLEAN'', spec_nominal = 1, spec_units = ''-'',
                   spec_low_limit = 1, spec_high_limit = 1\<rparr>,
       ''Label'' \<mapsto> \<lparr>data_type = ''STRING'', spec_nominal = 0, spec_units = ''-'',
                     spec_low_limit = 0, spec_high_limit = 0\<rparr>,
       ''Gain'' \<mapsto> \<lparr>data_type = ''CORRELATION DBL'', spec_nominal = 2, spec_units = ''dB'',
                    spec_low_limit = 1, spec_high_limit = 3\<rparr>,
       ''Count'' \<mapsto> \<lparr>data_type = ''INT'', spec_nominal = 2, spec_units = ''-'',
                     spec_low_limit = 1, spec_high_limit = 3\<rparr>]\<rparr>"

definition ex_row :: series where
  "ex_row = [(''[TIME] TIMESTAMP / RECORD ID'', PStr ''2024-01-01_10:00:00.000000''),
             (''[CONFIG] UUT SERIAL NUMBER'', PStr ''SN123''),
             (''[RESULT] TEST P/F STATUS'', PStr ''FAIL''),
             (''Voltage [MEAS]'', PFloat (24 / 5)),
             (''Voltage'', PStr ''FAIL''),
             (''Current'', PStr ''FAIL''),
             (''Relay'', PStr ''FAIL''),
             (''Fuse'', PStr ''PASS'')]"

definition ex_record :: tdr where
  "ex_record = \<lparr>rec_csv = ex_csv,
                 rec_data = [(''[TIME] TIMESTAMP / RECORD ID'', PStr ''2024-01-01_10:00:00.000000''),
                             (''[CONFIG] UUT SERIAL NUMBER'', PStr ''SN123''),
                             (''Voltage [MEAS]'', PFloat (24 / 5)),
                             (''Voltage'', PStr ''FAIL''),
                             (''Current'', PStr ''FAIL''),
                             (''Relay'', PStr ''FAIL''),
                             (''Fuse'', PStr ''PASS'')],
                 rec_date = PStr ''2024-01-01_10:00:00.000000'',
                 rec_serial = PStr ''SN123'',
                 rec_status = Some False\<rparr>"

text \<open>
  The test of \<open>ex_record\<close> for the field \<open>nm\<close> holding \<open>d\<close>, as \<^verbatim>\<open>Test.__init__\<close> builds
  it when the specification holds the canonical name of \<open>nm\<close>.
\<close>

definition ex_test :: "string \<Rightarrow> pyval \<Rightarrow> test" where
  "ex_test nm d =
     \<lparr>raw_name = nm, test_data = d, operator = None, test_record = ex_record,
      spec = the (test_spec ex_csv
                    (name \<lparr>raw_name = nm, test_data = d, operator = None,
                           test_record = ex_record\<rparr>))\<rparr>"

text \<open>A stand-in for Python's printing of the floats of the sample.\<close>

definition ex_float_repr :: "rat \<Rightarrow> string" where
  "ex_float_repr x =
     (if x = 5 then ''5.0'' else if x = 24 / 5 then ''4.8'' else if x = 51 / 10 then ''5.1''
      else if x = 49 / 10 then ''4.9'' else if x = 3 / 2 then ''1.5'' else if x = 2 then ''2.0''
      else if x = 1 then ''1.0'' else ''0.0'')"

section \<open>Strings: membership, splitting, formatting\<close>

lemma py_in_sublist: "py_in sub s = sublist sub s"
  by (induction s) (simp_all add: sublist_Cons_right)

lemma py_in_iff: "py_in sub s \<longleftrightarrow> (\<exists>p q. s = p @ sub @ q)"
  by (simp add: py_in_sublist sublist_def)

lemma py_in_char: "py_in [c] s \<longleftrightarrow> c \<in> set s"
  by (induction s) auto

lemma re_split_nonempty: "re_split s \<noteq> []"
  by (induction s rule: re_split.induct) (auto split: list.splits)

lemma hd_re_split_Cons2:
  "hd (re_split (c # d # cs)) =
     (if c = CHR '' '' \<and> d = CHR ''['' then [] else c # hd (re_split (d # cs)))"
  using re_split_nonempty [of "d # cs"] by (auto split: list.splits)

lemma hd_re_split_start:
  "hd (re_split (d # cs)) = [] \<or> hd (hd (re_split (d # cs))) = d"
  by (cases cs) (auto simp: hd_re_split_Cons2 simp del: re_split.simps(3))

lemma hd_re_split_no_sep: "\<not> py_in '' ['' (hd (re_split s))"
proof (induction s rule: re_split.induct)
  case 1
  then show ?case by simp
next
  case (2 c)
  then show ?case by simp
next
  case (3 c d cs)
  show ?case
  proof (cases "c = CHR '' '' \<and> d = CHR ''[''")
    case True
    then show ?thesis by (simp add: hd_re_split_Cons2 del: re_split.simps(3))
  next
    case False
    with 3 have ih: "\<not> py_in '' ['' (hd (re_split (d # cs)))" by simp
    from hd_re_split_start [of d cs] False ih show ?thesis
      by (cases "hd (re_split (d # cs))") (auto simp: hd_re_split_Cons2 simp del: re_split.simps(3))
  qed
qed

lemma hd_re_split_prefix:
  "hd (re_split s) = s \<or> (\<exists>rest. s = hd (re_split s) @ '' ['' @ rest)"
proof (induction s rule: re_split.induct)
  case (3 c d cs)
  then show ?case by (auto simp: hd_re_split_Cons2 simp del: re_split.simps(3))
qed simp_all

lemma hd_re_split_append_sep:
  "\<not> py_in '' ['' n \<Longrightarrow> hd (re_split (n @ '' ['' @ rest)) = n"
proof (induction n rule: re_split.induct)
  case 1
  then show ?case by simp
next
  case (2 c)
  then show ?case by (auto simp: hd_re_split_Cons2 simp del: re_split.simps(3))
next
  case (3 c d cs)
  then show ?case by (auto simp: hd_re_split_Cons2 simp del: re_split.simps(3))
qed

lemma py_format_line:
  "py_format (''|ftestres=0,{},{},{},{},{},{},{}'' @ [CHR 0x0A]) [a, b, c, d, e, f, g] =
     Inr (''|ftestres=0,'' @ a @ '','' @ b @ '','' @ c @ '','' @ d @ '','' @ e @ '','' @ f @ '','' @ g @ [CHR 0x0A])"
  by simp

lemma name_no_sep: "\<not> py_in '' ['' (name self)"
proof (cases "py_in ''['' (raw_name self)")
  case True
  then show ?thesis by (simp add: name_def hd_re_split_no_sep)
next
  case False
  then have "CHR ''['' \<notin> set (raw_name self)" by (simp add: py_in_char)
  then have "\<not> py_in '' ['' (raw_name self)" by (auto simp: py_in_iff)
  with False show ?thesis by (simp add: name_def)
qed

lemma name_sibling:
  "raw_name sib = name self @ '' [MEAS]'' \<Longrightarrow> name sib = name self"
proof -
  assume r: "raw_name sib = name self @ '' [MEAS]''"
  have "py_in ''['' (raw_name sib)" by (simp add: r py_in_char)
  moreover have "hd (re_split (name self @ '' ['' @ ''MEAS]'')) = name self"
    by (rule hd_re_split_append_sep) (rule name_no_sep)
  ultimately show ?thesis by (simp add: name_def r)
qed

lemma meas_keeps_spec: "spec (snd (meas self)) = spec self"
  by (simp add: meas_def Let_def split: sum.splits error.splits)

lemma meas_frame: "snd (meas self) = self\<lparr>operator := operator (snd (meas self))\<rparr>"
  by (simp add: meas_def Let_def split: sum.splits error.splits)

lemma digits_chars: "set (digits n) \<subseteq> set ''0123456789''"
proof (induction n rule: digits.induct)
  case (1 n)
  have nth: "\<And>k. k < 10 \<Longrightarrow> ''0123456789'' ! k \<in> set ''0123456789''"
    by (rule nth_mem) simp
  show ?case
  proof (cases "n < 10")
    case True
    with nth [of n] show ?thesis by (subst digits.simps) simp
  next
    case False
    have "n mod 10 < 10" by simp
    with False 1 nth [of "n mod 10"] show ?thesis by (subst digits.simps) simp
  qed
qed

lemma py_in_FAIL_has_F: "py_in ''FAIL'' s \<Longrightarrow> CHR ''F'' \<in> set s"
  by (auto simp: py_in_iff)

lemma failed_data_is_text:
  assumes "\<forall>x. \<not> py_in ''FAIL'' (float_repr x)"
    and "py_in ''FAIL'' (py_str float_repr d)"
  shows "\<exists>s. d = PStr s"
proof (cases d)
  case (PInt i)
  with assms(2) have "CHR ''F'' \<in> set (py_str float_repr (PInt i))"
    by (simp only: py_in_FAIL_has_F)
  with digits_chars [of "nat i"] digits_chars [of "nat (- i)"] show ?thesis
    by (auto split: if_splits)
next
  case (PFloat x)
  with assms show ?thesis by simp
qed (use assms(2) in \<open>auto split: if_splits\<close>)

lemma Record_getitem_error:
  "Record_getitem r key = Inl e \<Longrightarrow> e = KeyError"
  by (auto simp: Record_getitem_def Test_init_def Let_def split: option.splits)

lemma operator_update_simps [simp]:
  "name (self\<lparr>operator := x\<rparr>) = name self"
  "status (self\<lparr>operator := x\<rparr>) = status self"
  "type (t\<lparr>operator := x\<rparr>) = type t"
  "nominal (t\<lparr>operator := x\<rparr>) = nominal t"
  "units (t\<lparr>operator := x\<rparr>) = units t"
  "low_limit (t\<lparr>operator := x\<rparr>) = low_limit t"
  "high_limit (t\<lparr>operator := x\<rparr>) = high_limit t"
  by (simp_all add: name_def status_def type_def nominal_def units_def low_limit_def
        high_limit_def)

lemma meas_text_returns:
  assumes "test_data self = PStr s"
  shows "\<exists>v. fst (meas self) = Inr v"
proof -
  consider (dbl) "type self = ''DBL''" | (bool) "type self \<noteq> ''DBL''" "type self = ''BOOLEAN''"
    | (other) "type self \<noteq> ''DBL''" "type self \<noteq> ''BOOLEAN''" by blast
  then show ?thesis
  proof cases
    case dbl
    show ?thesis
    proof (cases "Record_getitem (test_record self) (name self @ '' [MEAS]'')")
      case (Inl e)
      with Record_getitem_error have "e = KeyError" by blast
      with Inl dbl show ?thesis by (simp add: meas_def Let_def)
    next
      case (Inr sib)
      with dbl show ?thesis by (simp add: meas_def Let_def)
    qed
  next
    case bool
    with assms show ?thesis by (simp add: meas_def Let_def status_def)
  next
    case other
    then show ?thesis by (simp add: meas_def)
  qed
qed

lemma build_failstring_loop_lines:
  assumes "\<forall>test \<in> set tests. \<exists>v. fst (meas test) = Inr v"
  shows "build_failstring_loop float_repr failstring tests =
     Inr (failstring @ concat (map (\<lambda>test.
        ''|ftestres=0,'' @ name test @ '','' @ py_str float_repr (projr (fst (meas test))) @ '','' @
        float_repr (high_limit test) @ '','' @ float_repr (low_limit test) @ '','' @
        float_repr (nominal test) @ '','' @ units test @ '','' @
        (case operator (snd (meas test)) of None \<Rightarrow> ''None'' | Some s \<Rightarrow> s) @ [CHR 0x0A]) tests))"
  using assms
proof (induction tests arbitrary: failstring)
  case Nil
  then show ?case by simp
next
  case (Cons test rest)
  from Cons.prems obtain v where v: "fst (meas test) = Inr v" by auto
  obtain test1 where m: "meas test = (Inr v, test1)" using v by (cases "meas test") simp
  have sp: "spec test1 = spec test" using meas_keeps_spec [of test] m by simp
  from Cons.prems have "\<forall>test \<in> set rest. \<exists>v. fst (meas test) = Inr v" by simp
  note ih = Cons.IH [OF this]
  show ?case
    by (simp only: build_failstring_loop.simps m prod.case sum.case py_format_line ih
          high_limit_def low_limit_def nominal_def units_def sp fst_conv snd_conv sum.sel
          list.map concat.simps append_assoc)
qed

section \<open>The sample record and the constructor\<close>

lemma ex_init: "TestDataRecord_init ex_csv ex_row = Inr ex_record"
  by (simp add: TestDataRecord_init_def set_status_def series_getitem_def series_drop_def
        series_get_def ex_row_def ex_record_def py_eq_def DATE_COLUMN_NAME_def
        SERIAL_COLUMN_NAME_def)

lemma ex_test_init: "Test_init ex_record ''Voltage'' (PStr ''FAIL'') = Inr (ex_test ''Voltage'' (PStr ''FAIL''))"
  by (simp add: Test_init_def ex_test_def name_def ex_record_def ex_csv_def)

lemma name_raw_name:
  fixes a :: "'a test_base_scheme" and b :: "'b test_base_scheme"
  shows "raw_name a = raw_name b \<Longrightarrow> name a = name b"
  by (simp add: name_def)

lemma Test_init_Inr:
  assumes "Test_init outer nm d = Inr self"
  shows "raw_name self = nm" and "test_data self = d" and "operator self = None"
    and "test_record self = outer"
    and "test_spec (rec_csv outer) (name self) = Some (spec self)"
proof -
  let ?base = "\<lparr>raw_name = nm, test_data = d, operator = None, test_record = outer\<rparr>"
  from assms obtain sp where sp: "test_spec (rec_csv outer) (name ?base) = Some sp"
    and self: "self = \<lparr>raw_name = nm, test_data = d, operator = None, test_record = outer,
                       spec = sp\<rparr>"
    by (auto simp: Test_init_def Let_def split: option.splits)
  from self show "raw_name self = nm" and "test_data self = d" and "operator self = None"
    and "test_record self = outer" by simp_all
  from self have "name self = name ?base" by (intro name_raw_name) simp
  with sp self show "test_spec (rec_csv outer) (name self) = Some (spec self)" by simp
qed

section \<open>The claims\<close>

text \<open>
  C1 (as amended). For a test of data type DBL whose record has no field named
  \<^verbatim>\<open>{name} [MEAS]\<close>: with nominal 1.0, \<open>meas\<close> gives the integer 0 and sets the operator
  to \<^verbatim>\<open>==\<close>; with nominal 0.0 it gives 1 and sets the operator to \<^verbatim>\<open>==\<close>; with any other
  nominal it gives \<^verbatim>\<open>None\<close> and leaves the operator at \<^verbatim>\<open><>\<close>, which it assigned
  before it looked the sibling field up.
\<close>

theorem meas_dbl_no_sibling:
  assumes "type self = ''DBL''"
    and "name self @ '' [MEAS]'' \<notin> fst ` set (rec_data (test_record self))"
  shows "meas self =
     (if nominal self = 1 then (Inr (PInt 0), self\<lparr>operator := Some ''==''\<rparr>)
      else if nominal self = 0 then (Inr (PInt 1), self\<lparr>operator := Some ''==''\<rparr>)
      else (Inr PNone, self\<lparr>operator := Some ''<>''\<rparr>))"
proof -
  from assms(2) have "map_of (rec_data (test_record self)) (name self @ '' [MEAS]'') = None"
    by (simp add: map_of_eq_None_iff)
  then have "Record_getitem (test_record self) (name self @ '' [MEAS]'') =
      Inl KeyError"
    by (simp add: Record_getitem_def)
  with assms(1) show ?thesis by (simp add: meas_def Let_def)
qed

theorem meas_dbl_no_sibling_witness:
  "meas (ex_test ''Relay'' (PStr ''FAIL'')) =
     (Inr (PInt 0), (ex_test ''Relay'' (PStr ''FAIL''))\<lparr>operator := Some ''==''\<rparr>)
   \<and> meas (ex_test ''Fuse'' (PStr ''PASS'')) =
     (Inr (PInt 1), (ex_test ''Fuse'' (PStr ''PASS''))\<lparr>operator := Some ''==''\<rparr>)
   \<and> meas (ex_test ''Current'' (PStr ''FAIL'')) =
     (Inr PNone, (ex_test ''Current'' (PStr ''FAIL''))\<lparr>operator := Some ''<>''\<rparr>)"
proof -
  have t: "type (ex_test ''Relay'' (PStr ''FAIL'')) = ''DBL''"
      "type (ex_test ''Fuse'' (PStr ''PASS'')) = ''DBL''"
      "type (ex_test ''Current'' (PStr ''FAIL'')) = ''DBL''"
    by (simp_all add: type_def ex_test_def name_def ex_csv_def)
  have n: "nominal (ex_test ''Relay'' (PStr ''FAIL'')) = 1"
      "nominal (ex_test ''Fuse'' (PStr ''PASS'')) = 0"
      "nominal (ex_test ''Current'' (PStr ''FAIL'')) = 3 / 2"
    by (simp_all add: nominal_def ex_test_def name_def ex_csv_def)
  have s: "name (ex_test ''Relay'' (PStr ''FAIL'')) @ '' [MEAS]''
        \<notin> fst ` set (rec_data (test_record (ex_test ''Relay'' (PStr ''FAIL''))))"
      "name (ex_test ''Fuse'' (PStr ''PASS'')) @ '' [MEAS]''
        \<notin> fst ` set (rec_data (test_record (ex_test ''Fuse'' (PStr ''PASS''))))"
      "name (ex_test ''Current'' (PStr ''FAIL'')) @ '' [MEAS]''
        \<notin> fst ` set (rec_data (test_record (ex_test ''Current'' (PStr ''FAIL''))))"
    by (simp_all add: name_def ex_test_def ex_record_def)
  show ?thesis
    using meas_dbl_no_sibling [OF t(1) s(1)] meas_dbl_no_sibling [OF t(2) s(2)]
      meas_dbl_no_sibling [OF t(3) s(3)]
    by (simp add: n)
qed

text \<open>
  The claim as written says that in the last case no operator is set. On the sample record,
  the DBL test \<open>Current\<close> (nominal 1.5, no sibling field) starts with no operator, and after
  \<open>meas\<close> returned \<^verbatim>\<open>None\<close> its operator is \<^verbatim>\<open><>\<close>.
\<close>

theorem meas_dbl_no_sibling_counterexample:
  "type (ex_test ''Current'' (PStr ''FAIL'')) = ''DBL''
   \<and> name (ex_test ''Current'' (PStr ''FAIL'')) @ '' [MEAS]''
        \<notin> fst ` set (rec_data (test_record (ex_test ''Current'' (PStr ''FAIL''))))
   \<and> nominal (ex_test ''Current'' (PStr ''FAIL'')) \<noteq> 1
   \<and> nominal (ex_test ''Current'' (PStr ''FAIL'')) \<noteq> 0
   \<and> operator (ex_test ''Current'' (PStr ''FAIL'')) = None
   \<and> fst (meas (ex_test ''Current'' (PStr ''FAIL''))) = Inr PNone
   \<and> operator (snd (meas (ex_test ''Current'' (PStr ''FAIL'')))) = Some ''<>''"
  by (simp add: meas_def Record_getitem_def type_def nominal_def name_def ex_test_def
        ex_record_def ex_csv_def)

text \<open>
  C2 (as amended). When the field \<^verbatim>\<open>[RESULT] TEST P/F STATUS\<close> is absent from the row,
  constructing the record raises KeyError: the \<^verbatim>\<open>try\<close> of \<open>set_status\<close> has a
  \<^verbatim>\<open>finally\<close> clause and no \<^verbatim>\<open>except\<close> clause, so the failed lookup is not swallowed;
  the drop of the field is still attempted and, the field being absent, fails as well.
\<close>

theorem record_init_missing_result_field:
  assumes "''[RESULT] TEST P/F STATUS'' \<notin> fst ` set row"
  shows "TestDataRecord_init csv row = Inl KeyError"
proof -
  from assms have "map_of row ''[RESULT] TEST P/F STATUS'' = None"
    by (simp add: map_of_eq_None_iff)
  with assms show ?thesis
    by (simp add: TestDataRecord_init_def set_status_def series_getitem_def series_drop_def)
qed

theorem record_init_missing_result_field_witness:
  "TestDataRecord_init ex_csv
     [(''[CONFIG] UUT SERIAL NUMBER'', PStr ''SN123''), (''Voltage [MEAS]'', PFloat (24 / 5)),
      (''Voltage'', PStr ''FAIL'')] = Inl KeyError"
proof -
  have "''[RESULT] TEST P/F STATUS'' \<notin> fst ` set
     [(''[CONFIG] UUT SERIAL NUMBER'', PStr ''SN123''), (''Voltage [MEAS]'', PFloat (24 / 5)),
      (''Voltage'', PStr ''FAIL'')]"
    by simp
  then show ?thesis by (rule record_init_missing_result_field)
qed

text \<open>
  The claim as written says that the construction does not raise and that the status keeps
  its default. On a row with the single field \<open>Voltage\<close> the construction ends in KeyError
  and yields no record.
\<close>

theorem record_init_missing_result_field_counterexample:
  "''[RESULT] TEST P/F STATUS'' \<notin> fst ` set [(''Voltage'', PStr ''PASS'')]
   \<and> TestDataRecord_init ex_csv [(''Voltage'', PStr ''PASS'')] =
       Inl KeyError"
  by (simp add: TestDataRecord_init_def set_status_def series_getitem_def series_drop_def)

text \<open>
  C3. For every row with unique labels that holds the field
  \<^verbatim>\<open>[RESULT] TEST P/F STATUS\<close>, the record is constructed and its status is true exactly
  when the value of that field is the string \<^verbatim>\<open>PASS\<close>; any other value gives false.
\<close>

theorem record_status_exact_pass:
  assumes "well_formed_row row"
    and "(''[RESULT] TEST P/F STATUS'', v) \<in> set row"
  shows "\<exists>r. TestDataRecord_init csv row = Inr r
           \<and> rec_status r = Some (v = PStr ''PASS'')"
proof -
  from assms have m: "map_of row ''[RESULT] TEST P/F STATUS'' = Some v"
    by (simp add: well_formed_row_def)
  from assms(2) have k: "''[RESULT] TEST P/F STATUS'' \<in> fst ` set row" by force
  have "py_eq v (PStr ''PASS'') = (v = PStr ''PASS'')"
    by (cases v) (simp_all add: py_eq_def)
  with m k show ?thesis
    by (simp add: TestDataRecord_init_def set_status_def series_getitem_def series_drop_def)
qed

theorem record_status_exact_pass_witness:
  "(\<exists>r. TestDataRecord_init ex_csv ex_row = Inr r \<and> rec_status r = Some False)
   \<and> (\<exists>r. TestDataRecord_init ex_csv [(''[RESULT] TEST P/F STATUS'', PStr ''PASS'')] = Inr r
          \<and> rec_status r = Some True)
   \<and> (\<exists>r. TestDataRecord_init ex_csv [(''[RESULT] TEST P/F STATUS'', PStr ''PASS-SOMETHING'')] = Inr r
          \<and> rec_status r = Some False)
   \<and> (\<exists>r. TestDataRecord_init ex_csv [(''[RESULT] TEST P/F STATUS'', PStr '''')] = Inr r
          \<and> rec_status r = Some False)"
proof -
  have w: "well_formed_row ex_row" by (simp add: well_formed_row_def ex_row_def)
  have f: "(''[RESULT] TEST P/F STATUS'', PStr ''FAIL'') \<in> set ex_row" by (simp add: ex_row_def)
  have w1: "\<And>v. well_formed_row [(''[RESULT] TEST P/F STATUS'', v)]"
    by (simp add: well_formed_row_def)
  have f1: "\<And>v. (''[RESULT] TEST P/F STATUS'', v) \<in> set [(''[RESULT] TEST P/F STATUS'', v)]"
    by simp
  show ?thesis
    using record_status_exact_pass [OF w f, where csv = ex_csv]
      record_status_exact_pass [OF w1 f1, where v = "PStr ''PASS''" and csv = ex_csv]
      record_status_exact_pass [OF w1 f1, where v = "PStr ''PASS-SOMETHING''" and csv = ex_csv]
      record_status_exact_pass [OF w1 f1, where v = "PStr ''''" and csv = ex_csv]
    by simp
qed

text \<open>
  C4. \<open>build_failstring\<close> returns, for the failed tests in their order, one line each:
  \<^verbatim>\<open>|ftestres=0,\<close> then name, measured value, high limit, low limit, nominal, units and
  operator, separated by commas and ended by a newline (given that printing a float never
  yields text containing \<^verbatim>\<open>FAIL\<close>, so that every failed test holds a string). With no
  failed test it returns the empty string, never an error.
\<close>

theorem build_failstring_lines:
  "((\<forall>x. \<not> py_in ''FAIL'' (float_repr x)) \<longrightarrow>
      build_failstring float_repr tests =
        Inr (concat (map (\<lambda>test.
          ''|ftestres=0,'' @ name test @ '','' @
          py_str float_repr (projr (fst (meas test))) @ '','' @
          float_repr (high_limit test) @ '','' @ float_repr (low_limit test) @ '','' @
          float_repr (nominal test) @ '','' @ units test @ '','' @
          (case operator (snd (meas test)) of None \<Rightarrow> ''None'' | Some s \<Rightarrow> s) @ [CHR 0x0A])
          (get_failed_tests float_repr tests))))
   \<and> (get_failed_tests float_repr tests = [] \<longrightarrow> build_failstring float_repr tests = Inr '''')"
proof (intro conjI impI)
  assume fr: "\<forall>x. \<not> py_in ''FAIL'' (float_repr x)"
  have "\<forall>test \<in> set (get_failed_tests float_repr tests). \<exists>v. fst (meas test) = Inr v"
  proof
    fix test
    assume "test \<in> set (get_failed_tests float_repr tests)"
    then have "py_in ''FAIL'' (py_str float_repr (test_data test))"
      by (simp add: get_failed_tests_def)
    with fr obtain s where "test_data test = PStr s"
      using failed_data_is_text by blast
    then show "\<exists>v. fst (meas test) = Inr v" by (rule meas_text_returns)
  qed
  then show "build_failstring float_repr tests =
        Inr (concat (map (\<lambda>test.
          ''|ftestres=0,'' @ name test @ '','' @
          py_str float_repr (projr (fst (meas test))) @ '','' @
          float_repr (high_limit test) @ '','' @ float_repr (low_limit test) @ '','' @
          float_repr (nominal test) @ '','' @ units test @ '','' @
          (case operator (snd (meas test)) of None \<Rightarrow> ''None'' | Some s \<Rightarrow> s) @ [CHR 0x0A])
          (get_failed_tests float_repr tests)))"
    unfolding build_failstring_def by (simp only: build_failstring_loop_lines append_Nil)
next
  assume "get_failed_tests float_repr tests = []"
  then show "build_failstring float_repr tests = Inr ''''"
    by (simp add: build_failstring_def)
qed

theorem build_failstring_lines_witness:
  "build_failstring ex_float_repr
     [ex_test ''Voltage'' (PStr ''FAIL''), ex_test ''Fuse'' (PStr ''PASS''),
      ex_test ''Relay'' (PStr ''FAIL'')] =
     Inr (''|ftestres=0,Voltage,4.8,5.1,4.9,5.0,V,<>'' @ [CHR 0x0A] @
          ''|ftestres=0,Relay,0,1.0,1.0,1.0,-,=='' @ [CHR 0x0A])
   \<and> build_failstring ex_float_repr [ex_test ''Fuse'' (PStr ''PASS'')] = Inr ''''"
proof -
  have fr: "\<forall>x. \<not> py_in ''FAIL'' (ex_float_repr x)" by (simp add: ex_float_repr_def)
  have f1: "get_failed_tests ex_float_repr
     [ex_test ''Voltage'' (PStr ''FAIL''), ex_test ''Fuse'' (PStr ''PASS''),
      ex_test ''Relay'' (PStr ''FAIL'')] =
     [ex_test ''Voltage'' (PStr ''FAIL''), ex_test ''Relay'' (PStr ''FAIL'')]"
    by (simp add: get_failed_tests_def ex_test_def)
  have f2: "get_failed_tests ex_float_repr [ex_test ''Fuse'' (PStr ''PASS'')] = []"
    by (simp add: get_failed_tests_def ex_test_def)
  have m1: "meas (ex_test ''Voltage'' (PStr ''FAIL'')) =
     (Inr (PFloat (24 / 5)), (ex_test ''Voltage'' (PStr ''FAIL''))\<lparr>operator := Some ''<>''\<rparr>)"
    by (simp add: meas_def Record_getitem_def Test_init_def type_def name_def ex_test_def
          ex_record_def ex_csv_def)
  have m2: "meas (ex_test ''Relay'' (PStr ''FAIL'')) =
     (Inr (PInt 0), (ex_test ''Relay'' (PStr ''FAIL''))\<lparr>operator := Some ''==''\<rparr>)"
    by (simp add: meas_def Record_getitem_def type_def nominal_def name_def ex_test_def
          ex_record_def ex_csv_def)
  have v: "name (ex_test ''Voltage'' (PStr ''FAIL'')) = ''Voltage''"
      "high_limit (ex_test ''Voltage'' (PStr ''FAIL'')) = 51 / 10"
      "low_limit (ex_test ''Voltage'' (PStr ''FAIL'')) = 49 / 10"
      "nominal (ex_test ''Voltage'' (PStr ''FAIL'')) = 5"
      "units (ex_test ''Voltage'' (PStr ''FAIL'')) = ''V''"
      "name (ex_test ''Relay'' (PStr ''FAIL'')) = ''Relay''"
      "high_limit (ex_test ''Relay'' (PStr ''FAIL'')) = 1"
      "low_limit (ex_test ''Relay'' (PStr ''FAIL'')) = 1"
      "nominal (ex_test ''Relay'' (PStr ''FAIL'')) = 1"
      "units (ex_test ''Relay'' (PStr ''FAIL'')) = ''-''"
    by (simp_all add: name_def high_limit_def low_limit_def nominal_def units_def ex_test_def
          ex_csv_def)
  have r: "ex_float_repr (24 / 5) = ''4.8''" "ex_float_repr (51 / 10) = ''5.1''"
      "ex_float_repr (49 / 10) = ''4.9''" "ex_float_repr 5 = ''5.0''" "ex_float_repr 1 = ''1.0''"
    by (simp_all add: ex_float_repr_def)
  have z: "digits 0 = ''0''" by (simp add: digits.simps)
  show ?thesis
    using build_failstring_lines [of ex_float_repr
        "[ex_test ''Voltage'' (PStr ''FAIL''), ex_test ''Fuse'' (PStr ''PASS''),
          ex_test ''Relay'' (PStr ''FAIL'')]"]
      build_failstring_lines [of ex_float_repr "[ex_test ''Fuse'' (PStr ''PASS'')]"]
    by (simp add: fr f1 f2 m1 m2 v r z)
qed

text \<open>
  C5. A raw name without \<^verbatim>\<open>[\<close> is its own canonical name. A raw name with \<^verbatim>\<open>[\<close> has
  as canonical name the first piece of its split at \<^verbatim>\<open> [\<close>: the text before the first
  occurrence of a space followed by \<^verbatim>\<open>[\<close>, or the whole raw name when there is no such
  occurrence. So \<^verbatim>\<open>Voltage [MEAS]\<close> resolves to \<^verbatim>\<open>Voltage\<close>.
\<close>

theorem name_canonical:
  fixes self :: "'a test_base_scheme"
  shows "(CHR ''['' \<notin> set (raw_name self) \<longrightarrow> name self = raw_name self)
     \<and> (CHR ''['' \<in> set (raw_name self) \<longrightarrow>
          name self = hd (re_split (raw_name self))
          \<and> \<not> (\<exists>p q. name self = p @ '' ['' @ q)
          \<and> (name self = raw_name self \<or> (\<exists>rest. raw_name self = name self @ '' ['' @ rest)))
     \<and> (raw_name self = ''Voltage [MEAS]'' \<longrightarrow> name self = ''Voltage'')"
proof (intro conjI impI)
  assume "CHR ''['' \<notin> set (raw_name self)"
  then show "name self = raw_name self" by (simp add: name_def py_in_char)
next
  assume "CHR ''['' \<in> set (raw_name self)"
  then show "name self = hd (re_split (raw_name self))" by (simp add: name_def py_in_char)
next
  from name_no_sep [of self] show "\<not> (\<exists>p q. name self = p @ '' ['' @ q)"
    by (simp add: py_in_iff)
next
  assume "CHR ''['' \<in> set (raw_name self)"
  then have "name self = hd (re_split (raw_name self))" by (simp add: name_def py_in_char)
  with hd_re_split_prefix [of "raw_name self"]
  show "name self = raw_name self \<or> (\<exists>rest. raw_name self = name self @ '' ['' @ rest)"
    by simp
next
  assume "raw_name self = ''Voltage [MEAS]''"
  then show "name self = ''Voltage''" by (simp add: name_def)
qed

theorem name_canonical_witness:
  "name (ex_test ''Voltage [MEAS]'' (PFloat (24 / 5))) = ''Voltage''
   \<and> name (ex_test ''Voltage'' (PStr ''FAIL'')) = ''Voltage''
   \<and> name \<lparr>raw_name = ''[TIME] TIMESTAMP / RECORD ID'', test_data = PNone, operator = None,
            test_record = ex_record\<rparr> = ''[TIME] TIMESTAMP / RECORD ID''"
proof -
  have r: "\<And>nm d. raw_name (ex_test nm d) = nm"
      "\<And>nm d op r. raw_name \<lparr>raw_name = nm, test_data = d, operator = op, test_record = r\<rparr> = nm"
    by (simp_all add: ex_test_def)
  have a: "CHR ''['' \<notin> set ''Voltage''" by simp
  have b: "CHR ''['' \<in> set ''[TIME] TIMESTAMP / RECORD ID''" by simp
  have c: "hd (re_split ''[TIME] TIMESTAMP / RECORD ID'') = ''[TIME] TIMESTAMP / RECORD ID''"
    by simp
  show ?thesis
    using name_canonical [of "ex_test ''Voltage [MEAS]'' (PFloat (24 / 5))"]
      name_canonical [of "ex_test ''Voltage'' (PStr ''FAIL'')"]
      name_canonical [of "\<lparr>raw_name = ''[TIME] TIMESTAMP / RECORD ID'', test_data = PNone,
          operator = None, test_record = ex_record\<rparr>"]
    by (simp only: r a b c not_False_eq_True simp_thms)
qed

text \<open>
  C6. For a constructed test of data type DBL whose record (with unique labels) holds a
  field named \<^verbatim>\<open>{name} [MEAS]\<close>, \<open>meas\<close> returns the value of that field and sets the
  operator to \<^verbatim>\<open><>\<close>.
\<close>

theorem meas_dbl_sibling:
  assumes "Test_init outer nm d = Inr self"
    and "type self = ''DBL''"
    and "well_formed_row (rec_data outer)"
    and "(name self @ '' [MEAS]'', v) \<in> set (rec_data outer)"
  shows "meas self = (Inr v, self\<lparr>operator := Some ''<>''\<rparr>)"
proof -
  from Test_init_Inr [OF assms(1)] obtain sp where
    sp: "test_spec (rec_csv outer) (name self) = Some sp" and rec: "test_record self = outer"
    by simp
  from assms(3,4) have m: "map_of (rec_data outer) (name self @ '' [MEAS]'') = Some v"
    by (simp add: well_formed_row_def)
  define sib :: test where
    "sib = \<lparr>raw_name = name self @ '' [MEAS]'', test_data = v, operator = None,
            test_record = outer, spec = sp\<rparr>"
  have "raw_name sib = name self @ '' [MEAS]''" by (simp add: sib_def)
  then have n: "name sib = name self" by (rule name_sibling)
  have "name \<lparr>raw_name = name self @ '' [MEAS]'', test_data = v, operator = None,
              test_record = outer\<rparr> = name sib"
    by (intro name_raw_name) (simp add: sib_def)
  with n sp have "Test_init outer (name self @ '' [MEAS]'') v = Inr sib"
    by (simp add: Test_init_def Let_def sib_def)
  with m have "Record_getitem outer (name self @ '' [MEAS]'') = Inr sib"
    by (simp add: Record_getitem_def)
  moreover have "test_data sib = v" by (simp add: sib_def)
  ultimately show ?thesis using assms(2) rec by (simp add: meas_def Let_def)
qed

theorem meas_dbl_sibling_witness:
  "meas (ex_test ''Voltage'' (PStr ''FAIL'')) =
     (Inr (PFloat (24 / 5)), (ex_test ''Voltage'' (PStr ''FAIL''))\<lparr>operator := Some ''<>''\<rparr>)"
proof -
  have t: "type (ex_test ''Voltage'' (PStr ''FAIL'')) = ''DBL''"
    by (simp add: type_def ex_test_def name_def ex_csv_def)
  have w: "well_formed_row (rec_data ex_record)"
    by (simp add: well_formed_row_def ex_record_def)
  have s: "(name (ex_test ''Voltage'' (PStr ''FAIL'')) @ '' [MEAS]'', PFloat (24 / 5))
      \<in> set (rec_data ex_record)"
    by (simp add: name_def ex_test_def ex_record_def)
  show ?thesis by (rule meas_dbl_sibling [OF ex_test_init t w s])
qed

text \<open>
  C7. The status of a test is true exactly when its raw value is a string in which
  \<^verbatim>\<open>PASS\<close> occurs as a substring; on every raw string, \<open>status\<close> returns whether
  \<^verbatim>\<open>PASS\<close> occurs in it.
\<close>

theorem status_substring:
  fixes self :: "'a test_base_scheme"
  shows "(status self = Inr True \<longleftrightarrow>
            (\<exists>s p q. test_data self = PStr s \<and> s = p @ ''PASS'' @ q))
     \<and> (\<forall>s. test_data self = PStr s \<longrightarrow> status self = Inr (\<exists>p q. s = p @ ''PASS'' @ q))"
  by (cases "test_data self") (simp_all add: status_def py_in_iff)

theorem status_substring_witness:
  "status (ex_test ''Voltage'' (PStr ''PASS-SOMETHING'')) = Inr True
   \<and> status (ex_test ''Voltage'' (PStr ''it did PASS'')) = Inr True
   \<and> status (ex_test ''Voltage'' (PStr ''pass'')) = Inr False"
proof -
  have d: "\<And>nm v. test_data (ex_test nm v) = v" by (simp add: ex_test_def)
  have a: "\<exists>p q. ''PASS-SOMETHING'' = p @ ''PASS'' @ q" 
    by (rule exI [of _ "''''"], rule exI [of _ "''-SOMETHING''"]) simp
  have b: "\<exists>p q. ''it did PASS'' = p @ ''PASS'' @ q"
    by (rule exI [of _ "''it did ''"], rule exI [of _ "''''"]) simp
  have "\<not> py_in ''PASS'' ''pass''" by simp
  then have c: "\<not> (\<exists>p q. ''pass'' = p @ ''PASS'' @ q)" by (simp add: py_in_iff)
  show ?thesis
    using status_substring [of "ex_test ''Voltage'' (PStr ''PASS-SOMETHING'')"]
      status_substring [of "ex_test ''Voltage'' (PStr ''it did PASS'')"]
      status_substring [of "ex_test ''Voltage'' (PStr ''pass'')"]
      a b c
    by (simp add: d)
qed

text \<open>
  C8. Constructing a test whose canonical name the test specification does not hold ends
  in the KeyError of the lookup: \<^verbatim>\<open>__init__\<close> does not catch it. Every test that is
  constructed has its canonical name registered, with the entry as its \<open>spec\<close>.
\<close>

theorem Test_init_unregistered:
  "(test_spec (rec_csv outer)
       (name \<lparr>raw_name = nm, test_data = d, operator = None, test_record = outer\<rparr>) = None
     \<longrightarrow> Test_init outer nm d =
           Inl KeyError)
   \<and> (\<forall>self. Test_init outer nm d = Inr self \<longrightarrow>
          test_spec (rec_csv outer) (name self) = Some (spec self))"
  using Test_init_Inr(5) [of outer nm d] by (simp add: Test_init_def Let_def)

theorem Test_init_unregistered_witness:
  "Test_init ex_record ''Torque [MEAS]'' (PStr ''PASS'') = Inl KeyError
   \<and> test_spec (rec_csv ex_record) (name (ex_test ''Voltage'' (PStr ''FAIL''))) =
       Some (spec (ex_test ''Voltage'' (PStr ''FAIL'')))"
proof -
  have n: "name \<lparr>raw_name = ''Torque [MEAS]'', test_data = PStr ''PASS'', operator = None,
                 test_record = ex_record\<rparr> = ''Torque''"
    by (simp add: name_def)
  have u: "test_spec (rec_csv ex_record) ''Torque'' = None"
    by (simp add: ex_record_def ex_csv_def)
  show ?thesis
    using Test_init_unregistered [of ex_record "''Torque [MEAS]''" "PStr ''PASS''"]
      Test_init_unregistered [of ex_record "''Voltage''" "PStr ''FAIL''"] ex_test_init
    by (simp add: n u)
qed

text \<open>
  C9. The failed tests of a record are exactly those of its tests, in order, whose raw
  value printed as text contains \<^verbatim>\<open>FAIL\<close>. The check does not consult \<open>status\<close>: a
  test whose raw text holds both words is a failed test and has status true.
\<close>

theorem get_failed_tests_raw_text:
  "get_failed_tests float_repr tests =
     filter (\<lambda>test. \<exists>p q. py_str float_repr (test_data test) = p @ ''FAIL'' @ q) tests
   \<and> (\<forall>test. test \<in> set tests \<and> test_data test = PStr ''PASS, then FAIL'' \<longrightarrow>
          test \<in> set (get_failed_tests float_repr tests) \<and> status test = Inr True)"
proof
  show "get_failed_tests float_repr tests =
     filter (\<lambda>test. \<exists>p q. py_str float_repr (test_data test) = p @ ''FAIL'' @ q) tests"
    by (simp add: get_failed_tests_def py_in_iff)
  show "\<forall>test. test \<in> set tests \<and> test_data test = PStr ''PASS, then FAIL'' \<longrightarrow>
          test \<in> set (get_failed_tests float_repr tests) \<and> status test = Inr True"
    by (simp add: get_failed_tests_def status_def)
qed

theorem get_failed_tests_raw_text_witness:
  "get_failed_tests ex_float_repr
     [ex_test ''Voltage'' (PStr ''FAIL''), ex_test ''Fuse'' (PStr ''PASS''),
      ex_test ''Voltage [MEAS]'' (PFloat (24 / 5)),
      ex_test ''Relay'' (PStr ''PASS, then FAIL'')] =
     [ex_test ''Voltage'' (PStr ''FAIL''), ex_test ''Relay'' (PStr ''PASS, then FAIL'')]
   \<and> status (ex_test ''Relay'' (PStr ''PASS, then FAIL'')) = Inr True"
proof -
  let ?ts = "[ex_test ''Voltage'' (PStr ''FAIL''), ex_test ''Fuse'' (PStr ''PASS''),
      ex_test ''Voltage [MEAS]'' (PFloat (24 / 5)),
      ex_test ''Relay'' (PStr ''PASS, then FAIL'')]"
  note th = get_failed_tests_raw_text [of ex_float_repr ?ts]
  have d: "\<And>nm v. test_data (ex_test nm v) = v" by (simp add: ex_test_def)
  have f: "ex_float_repr (24 / 5) = ''4.8''" by (simp add: ex_float_repr_def)
  have a: "get_failed_tests ex_float_repr ?ts =
      filter (\<lambda>test. py_in ''FAIL'' (py_str ex_float_repr (test_data test))) ?ts"
    using th by (simp only: py_in_iff)
  have b: "status (ex_test ''Relay'' (PStr ''PASS, then FAIL'')) = Inr True"
    using th [THEN conjunct2, THEN spec, of "ex_test ''Relay'' (PStr ''PASS, then FAIL'')"]
    by (simp add: d)
  from a b show ?thesis by (simp add: d f)
qed

text \<open>
  C10. For a test whose data type is neither DBL nor BOOLEAN, \<open>meas\<close> raises nothing and
  returns \<^verbatim>\<open>None\<close>; it sets the operator to \<^verbatim>\<open>==\<close> for STRING, to \<^verbatim>\<open><>\<close> for
  CORRELATION DBL, and leaves it unchanged for any other type.
\<close>

theorem meas_other_types:
  assumes "type self \<noteq> ''DBL''" and "type self \<noteq> ''BOOLEAN''"
  shows "meas self =
     (Inr PNone,
      if type self = ''STRING'' then self\<lparr>operator := Some ''==''\<rparr>
      else if type self = ''CORRELATION DBL'' then self\<lparr>operator := Some ''<>''\<rparr>
      else self)"
  using assms by (simp add: meas_def)

theorem meas_other_types_witness:
  "meas (ex_test ''Label'' (PStr ''FAIL'')) =
     (Inr PNone, (ex_test ''Label'' (PStr ''FAIL''))\<lparr>operator := Some ''==''\<rparr>)
   \<and> meas (ex_test ''Gain'' (PStr ''FAIL'')) =
     (Inr PNone, (ex_test ''Gain'' (PStr ''FAIL''))\<lparr>operator := Some ''<>''\<rparr>)
   \<and> meas (ex_test ''Count'' (PInt 7)) = (Inr PNone, ex_test ''Count'' (PInt 7))"
proof -
  have t: "type (ex_test ''Label'' (PStr ''FAIL'')) = ''STRING''"
      "type (ex_test ''Gain'' (PStr ''FAIL'')) = ''CORRELATION DBL''"
      "type (ex_test ''Count'' (PInt 7)) = ''INT''"
    by (simp_all add: type_def ex_test_def name_def ex_csv_def)
  have "''STRING'' \<noteq> ''DBL''" "''STRING'' \<noteq> ''BOOLEAN''" "''CORRELATION DBL'' \<noteq> ''DBL''"
      "''CORRELATION DBL'' \<noteq> ''BOOLEAN''" "''INT'' \<noteq> ''DBL''" "''INT'' \<noteq> ''BOOLEAN''"
    by simp_all
  then show ?thesis
    using meas_other_types [of "ex_test ''Label'' (PStr ''FAIL'')"]
      meas_other_types [of "ex_test ''Gain'' (PStr ''FAIL'')"]
      meas_other_types [of "ex_test ''Count'' (PInt 7)"]
    by (simp add: t)
qed

end
